theory Spec2Isabelle
  imports Complex_Main "HOL-Library.AList"
begin

section \<open>Values\<close>

text \<open>
  The server is Python. A \<open>string\<close> stands for a Python \<open>str\<close> whose code points are
  below 256, one \<open>char\<close> per code point, so that \<open>length\<close> and \<open>take\<close> are Python's
  \<open>len\<close> and slicing. A Python \<open>dict\<close> is an association list in insertion order:
  \<open>d[k] = v\<close> is \<open>AList.update\<close>, \<open>d.pop(k, None)\<close> is \<open>AList.delete\<close>, \<open>k in d\<close> and
  \<open>d.get(k)\<close> read \<open>map_of\<close>.

  \<open>pyval\<close> are the values found in the dictionaries the client returns: what
  \<open>json.loads\<close> produces, and \<open>bytes\<close> for a binary body. A finite float is given by
  its exact value.
\<close>

datatype pyval =
    PNone
  | PBool bool
  | PInt int
  | PFloat rat
  | PStr string
  | PBytes "nat list"
  | PList "pyval list"
  | PDict "(string \<times> pyval) list"

type_synonym pydict = "(string \<times> pyval) list"

text \<open>
  The values a tool argument can take. The input schemas of \<open>handle_list_tools\<close> declare
  string, integer and boolean parameters only; \<open>ANull\<close> is JSON \<open>null\<close>, which is also what
  \<open>arguments.get(k)\<close> gives for an absent key.
\<close>

datatype argval = ANull | ABool bool | AInt int | AStr string

type_synonym arguments = "string \<rightharpoonup> argval"

datatype exn =
    KeyError string
  | TypeError string
  | OtherException string

text \<open>\<open>str(e)\<close>; for a \<open>KeyError\<close> it is the \<open>repr\<close> of the key.\<close>

fun str_exn :: "exn \<Rightarrow> string" where
  "str_exn (KeyError k) = [CHR 0x27] @ k @ [CHR 0x27]"
| "str_exn (TypeError m) = m"
| "str_exn (OtherException m) = m"

fun arg_to_py :: "argval \<Rightarrow> pyval" where
  "arg_to_py ANull = PNone"
| "arg_to_py (ABool b) = PBool b"
| "arg_to_py (AInt i) = PInt i"
| "arg_to_py (AStr s) = PStr s"

text \<open>Truth value testing (\<open>if x:\<close>, \<open>x and y\<close>, \<open>not x\<close>).\<close>

fun truthy :: "pyval \<Rightarrow> bool" where
  "truthy PNone = False"
| "truthy (PBool b) = b"
| "truthy (PInt i) = (i \<noteq> 0)"
| "truthy (PFloat q) = (q \<noteq> 0)"
| "truthy (PStr s) = (s \<noteq> [])"
| "truthy (PBytes b) = (b \<noteq> [])"
| "truthy (PList xs) = (xs \<noteq> [])"
| "truthy (PDict d) = (d \<noteq> [])"

definition arg_truthy :: "argval \<Rightarrow> bool" where
  "arg_truthy a = truthy (arg_to_py a)"

text \<open>\<open>x == n\<close> and \<open>x != 0\<close> for an integer literal: \<open>True == 1\<close>, \<open>200.0 == 200\<close>.\<close>

fun py_eq_int :: "pyval \<Rightarrow> int \<Rightarrow> bool" where
  "py_eq_int (PInt i) n = (i = n)"
| "py_eq_int (PBool b) n = ((if b then 1 else 0) = n)"
| "py_eq_int (PFloat q) n = (q = of_int n)"
| "py_eq_int _ n = False"

definition ne_zero :: "argval \<Rightarrow> bool" where
  "ne_zero a = (\<not> py_eq_int (arg_to_py a) 0)"

text \<open>\<open>str(n)\<close> for an integer, and \<open>str\<close> of an argument value as an f-string renders it.\<close>

fun str_nat :: "nat \<Rightarrow> string" where
  "str_nat n = (if n < 10 then [''0123456789'' ! n]
                else str_nat (n div 10) @ [''0123456789'' ! (n mod 10)])"

declare str_nat.simps [simp del]

definition str_int :: "int \<Rightarrow> string" where
  "str_int i = (if i < 0 then CHR ''-'' # str_nat (nat (- i)) else str_nat (nat i))"

fun py_str :: "argval \<Rightarrow> string" where
  "py_str ANull = ''None''"
| "py_str (ABool b) = (if b then ''True'' else ''False'')"
| "py_str (AInt i) = str_int i"
| "py_str (AStr s) = s"

text \<open>\<open>d[k] = v\<close> on the value \<open>json.loads\<close> returned: only a \<open>dict\<close> takes a string key.\<close>

fun type_name :: "pyval \<Rightarrow> string" where
  "type_name PNone = ''NoneType''"
| "type_name (PBool b) = ''bool''"
| "type_name (PInt i) = ''int''"
| "type_name (PFloat q) = ''float''"
| "type_name (PStr s) = ''str''"
| "type_name (PBytes b) = ''bytes''"
| "type_name (PList xs) = ''list''"
| "type_name (PDict d) = ''dict''"

fun setitem :: "pyval \<Rightarrow> string \<Rightarrow> pyval \<Rightarrow> exn + pydict" where
  "setitem (PDict d) k v = Inr (AList.update k v d)"
| "setitem (PList xs) k v = Inl (TypeError ''list indices must be integers or slices, not str'')"
| "setitem x k v =
     Inl (TypeError ([CHR 0x27] @ type_name x @ [CHR 0x27] @ '' object does not support item assignment''))"

text \<open>
  \<open>len(x)\<close> and \<open>x[:50]\<close>. Slicing a \<open>dict\<close> raises (a \<open>TypeError\<close> up to Python 3.11, a
  \<open>KeyError\<close> from 3.12 on; the caller catches both alike).
\<close>

fun py_len :: "pyval \<Rightarrow> exn + nat" where
  "py_len (PStr s) = Inr (length s)"
| "py_len (PBytes b) = Inr (length b)"
| "py_len (PList xs) = Inr (length xs)"
| "py_len (PDict d) = Inr (length d)"
| "py_len x = Inl (TypeError (''object of type '' @ [CHR 0x27] @ type_name x @ [CHR 0x27] @ '' has no len()''))"

fun slice50 :: "pyval \<Rightarrow> exn + pyval" where
  "slice50 (PStr s) = Inr (PStr (take 50 s))"
| "slice50 (PBytes b) = Inr (PBytes (take 50 b))"
| "slice50 (PList xs) = Inr (PList (take 50 xs))"
| "slice50 (PDict d) = Inl (TypeError (''unhashable type: '' @ [CHR 0x27] @ ''slice'' @ [CHR 0x27]))"
| "slice50 x = Inl (TypeError ([CHR 0x27] @ type_name x @ [CHR 0x27] @ '' object is not subscriptable''))"

section \<open>Percent-encoding\<close>

text \<open>
  \<open>urllib.parse.quote(s, safe='')\<close>: the string is encoded as UTF-8, and every byte
  that is not a letter, a digit or one of \<open>_.-~\<close> becomes \<open>%XX\<close> in upper-case hex. With
  \<open>safe=''\<close> the slash is encoded too. A code point from 128 to 255 is two bytes of UTF-8.
\<close>

definition always_safe :: "char \<Rightarrow> bool" where
  "always_safe c = (c \<in> set (''ABCDEFGHIJKLMNOPQRSTUVWXYZ'' @ ''abcdefghijklmnopqrstuvwxyz''
                               @ ''0123456789'' @ ''_.-~''))"

definition hex_digit :: "nat \<Rightarrow> char" where
  "hex_digit n = ''0123456789ABCDEF'' ! (n mod 16)"

definition pct :: "nat \<Rightarrow> string" where
  "pct b = [CHR ''%'', hex_digit (b div 16), hex_digit b]"

definition utf8 :: "char \<Rightarrow> nat list" where
  "utf8 c = (let n = of_char c :: nat in
             if n < 128 then [n] else [192 + n div 64, 128 + n mod 64])"

definition quote_char :: "char \<Rightarrow> string" where
  "quote_char c = (if always_safe c then [c] else concat (map pct (utf8 c)))"

definition quote :: "string \<Rightarrow> string" where
  "quote s = concat (map quote_char s)"

text \<open>\<open>quote\<close> of an argument: anything but a \<open>str\<close> raises.\<close>

fun quote_arg :: "argval \<Rightarrow> exn + string" where
  "quote_arg (AStr s) = Inr (quote s)"
| "quote_arg _ = Inl (TypeError ''quote_from_bytes() expected bytes'')"

section \<open>The world outside\<close>

text \<open>
  What the program calls and does not define is a parameter: \<open>session.request\<close> (an
  exception, or a response with its status, its \<open>content-type\<close> header, its bytes, its
  text and what \<open>response.json()\<close> gives, \<open>None\<close> for a \<open>JSONDecodeError\<close>),
  \<open>subprocess.run\<close>, \<open>json.loads\<close> (\<open>None\<close> for a \<open>JSONDecodeError\<close>), \<open>json.dumps\<close>,
  \<open>os.path.exists\<close> and the clock read by \<open>enroll_certificate\<close>. A call answers the same
  way each time it is made with the same arguments; no tool makes the same call twice.
\<close>

record kwargs =
  kw_params :: "pydict option"
  kw_json :: "pyval option"

record response =
  resp_status_code :: int
  resp_content_type :: "string option"
  resp_content :: "nat list"
  resp_text :: string
  resp_json :: "pyval option"

datatype run_outcome =
    Completed int string string
  | TimeoutExpired
  | Raised string

record environment =
  session_request :: "string \<Rightarrow> string \<Rightarrow> kwargs \<Rightarrow> exn + response"
  subprocess_run :: "string list \<Rightarrow> run_outcome"
  json_loads :: "string \<Rightarrow> pyval option"
  json_dumps :: "pyval \<Rightarrow> string"
  path_exists :: "string \<Rightarrow> bool"
  timestamp :: string

text \<open>A transport call: the primary channel with method, URL and keyword arguments, or the
  fallback channel with the command line it runs.\<close>

datatype call =
    Primary string string kwargs
  | Fallback "string list"

section \<open>The client\<close>

record client =
  base_url :: string
  cert_path :: string
  key_path :: string
  has_certificates :: bool

definition rstrip_slash :: "string \<Rightarrow> string" where
  "rstrip_slash s = rev (dropWhile (\<lambda>c. c = CHR ''/'') (rev s))"

definition init_client :: "environment \<Rightarrow> string \<Rightarrow> string \<Rightarrow> string \<Rightarrow> client" where
  "init_client env url cert key =
     \<lparr>base_url = rstrip_slash url, cert_path = cert, key_path = key,
      has_certificates = (cert \<noteq> [] \<and> key \<noteq> [] \<and> path_exists env cert \<and> path_exists env key)\<rparr>"

definition api_url :: "client \<Rightarrow> string \<Rightarrow> string" where
  "api_url c endpoint = base_url c @ ''/ejbca/ejbca-rest-api/v1/'' @ endpoint"

text \<open>\<open>method.upper()\<close>; every caller passes an ASCII literal.\<close>

definition upper :: "string \<Rightarrow> string" where
  "upper s = map (\<lambda>c. let n = of_char c :: nat in
                       if 97 \<le> n \<and> n \<le> 122 then char_of (n - 32) else c) s"

definition startswith :: "string \<Rightarrow> string \<Rightarrow> bool" where
  "startswith s p = (take (length p) s = p)"

definition opt_truthy :: "pyval option \<Rightarrow> bool" where
  "opt_truthy d = (case d of None \<Rightarrow> False | Some v \<Rightarrow> truthy v)"

definition curl_cmd :: "environment \<Rightarrow> client \<Rightarrow> string \<Rightarrow> string \<Rightarrow> pyval option \<Rightarrow> string list" where
  "curl_cmd env c method endpoint data =
     [''curl'', ''-s'', ''-k'',
      ''--cert'', cert_path c,
      ''--key'', key_path c,
      ''-H'', ''X-Keyfactor-Requested-With: XMLHttpRequest'',
      ''-H'', ''Content-Type: application/json'',
      ''-H'', ''Accept: application/json'']
     @ (if upper method = ''POST'' \<and> opt_truthy data
          then [''-X'', ''POST'', ''-d'', json_dumps env (the data)]
        else if upper method = ''PUT'' \<and> opt_truthy data
          then [''-X'', ''PUT'', ''-d'', json_dumps env (the data)]
        else [])
     @ [api_url c endpoint]"

text \<open>
  \<open>_curl_fallback\<close>, with the calls it made. The data it serialises is a dictionary the
  client built from tool arguments, on which \<open>json.dumps\<close> does not raise; what
  \<open>subprocess.run\<close> raises (a timeout, a missing executable, output that does not decode) is
  an outcome of the run.
\<close>

definition curl_fallback ::
  "environment \<Rightarrow> client \<Rightarrow> string \<Rightarrow> string \<Rightarrow> pyval option \<Rightarrow> pydict \<times> call list" where
  "curl_fallback env c method endpoint data =
     (if \<not> has_certificates c
        then ([(''error'', PStr ''No certificates available for authentication'')], [])
      else
        let cmd = curl_cmd env c method endpoint data in
        (case subprocess_run env cmd of
           Completed returncode out err \<Rightarrow>
             if returncode = 0 \<and> out \<noteq> [] then
               (case json_loads env out of
                  Some parsed \<Rightarrow>
                    (case setitem parsed ''_method'' (PStr ''curl'') of
                       Inr r \<Rightarrow> r
                     | Inl e \<Rightarrow> [(''error'', PStr (''Curl command failed: '' @ str_exn e)),
                                (''_method'', PStr ''curl'')])
                | None \<Rightarrow> [(''response'', PStr out),
                           (''success'', PBool True),
                           (''_method'', PStr ''curl'')])
             else [(''error'', PStr (''Curl failed (exit code: '' @ str_int returncode @ '')'')),
                   (''stderr'', PStr err),
                   (''_method'', PStr ''curl'')]
         | TimeoutExpired \<Rightarrow> [(''error'', PStr ''Request timed out''), (''_method'', PStr ''curl'')]
         | Raised msg \<Rightarrow> [(''error'', PStr (''Curl command failed: '' @ msg)),
                          (''_method'', PStr ''curl'')],
         [Fallback cmd]))"

text \<open>The body of the \<open>try\<close> in \<open>_make_request\<close>: \<open>Inl\<close> is the exception that leaves it.\<close>

definition primary_attempt ::
  "environment \<Rightarrow> client \<Rightarrow> string \<Rightarrow> string \<Rightarrow> kwargs \<Rightarrow> exn + pydict" where
  "primary_attempt env c method endpoint kw =
     (let url = api_url c endpoint in
      case session_request env method url kw of
        Inl e \<Rightarrow> Inl e
      | Inr resp \<Rightarrow>
          if resp_status_code resp = 200 then
            (case resp_json resp of
               Some parsed \<Rightarrow>
                 (case setitem parsed ''_method'' (PStr ''requests'') of
                    Inl e \<Rightarrow> Inl e
                  | Inr r \<Rightarrow> setitem (PDict r) ''_status_code'' (PInt (resp_status_code resp)))
             | None \<Rightarrow>
                 if startswith (case resp_content_type resp of None \<Rightarrow> [] | Some t \<Rightarrow> t)
                               ''application/pkix-crl''
                 then Inr [(''crl_data'', PBytes (resp_content resp)),
                           (''content_type'', (case resp_content_type resp of
                                                   None \<Rightarrow> PNone | Some t \<Rightarrow> PStr t)),
                           (''content_length'', PInt (int (length (resp_content resp)))),
                           (''success'', PBool True),
                           (''_method'', PStr ''requests''),
                           (''_status_code'', PInt (resp_status_code resp))]
                 else Inr [(''response'', PStr (resp_text resp)),
                           (''success'', PBool True),
                           (''_method'', PStr ''requests''),
                           (''_status_code'', PInt (resp_status_code resp))])
          else Inr [(''error'', PStr (''HTTP '' @ str_int (resp_status_code resp))),
                    (''message'', PStr (if resp_text resp \<noteq> [] then take 500 (resp_text resp) else [])),
                    (''_method'', PStr ''requests''),
                    (''_status_code'', PInt (resp_status_code resp)),
                    (''_url'', PStr url)])"

text \<open>
  \<open>_make_request\<close>. The primary channel is tried only with certificates; whatever
  exception leaves the \<open>try\<close> is logged and dropped, and the fallback runs with the
  \<open>json\<close> keyword argument as its data.
\<close>

definition make_request ::
  "environment \<Rightarrow> client \<Rightarrow> string \<Rightarrow> string \<Rightarrow> kwargs \<Rightarrow> pydict \<times> call list" where
  "make_request env c method endpoint kw =
     (if has_certificates c then
        (case primary_attempt env c method endpoint kw of
           Inr r \<Rightarrow> (r, [Primary method (api_url c endpoint) kw])
         | Inl e \<Rightarrow>
             (let (r, calls) = curl_fallback env c method endpoint (kw_json kw)
              in (r, Primary method (api_url c endpoint) kw # calls)))
      else curl_fallback env c method endpoint (kw_json kw))"

section \<open>Requests of the client methods\<close>

text \<open>
  Each method of \<open>EJBCARestClient\<close> computes a method, an endpoint and keyword arguments
  and hands them to \<open>_make_request\<close>. The first half is a function of its own here
  (\<open>Inl\<close> when \<open>quote\<close> raises); \<open>perform\<close> is the second half.
\<close>

record request =
  rq_method :: string
  rq_endpoint :: string
  rq_kwargs :: kwargs

definition no_kwargs :: kwargs where
  "no_kwargs = \<lparr>kw_params = None, kw_json = None\<rparr>"

definition with_params :: "pydict \<Rightarrow> kwargs" where
  "with_params ps = \<lparr>kw_params = Some ps, kw_json = None\<rparr>"

definition with_json :: "pydict \<Rightarrow> kwargs" where
  "with_json d = \<lparr>kw_params = None, kw_json = Some (PDict d)\<rparr>"

definition send :: "environment \<Rightarrow> client \<Rightarrow> request \<Rightarrow> pydict \<times> call list" where
  "send env c r = make_request env c (rq_method r) (rq_endpoint r) (rq_kwargs r)"

definition perform :: "environment \<Rightarrow> client \<Rightarrow> exn + request \<Rightarrow> exn + pydict \<times> call list" where
  "perform env c b = (case b of Inl e \<Rightarrow> Inl e | Inr r \<Rightarrow> Inr (send env c r))"

definition get_certificate_api_status :: "environment \<Rightarrow> client \<Rightarrow> pydict \<times> call list" where
  "get_certificate_api_status env c = make_request env c ''GET'' ''certificate/status'' no_kwargs"

definition get_ca_list :: "environment \<Rightarrow> client \<Rightarrow> pydict \<times> call list" where
  "get_ca_list env c = make_request env c ''GET'' ''ca'' no_kwargs"

definition get_ca_version :: "environment \<Rightarrow> client \<Rightarrow> pydict \<times> call list" where
  "get_ca_version env c = make_request env c ''GET'' ''ca/version'' no_kwargs"

definition search_certificates :: "environment \<Rightarrow> client \<Rightarrow> pydict \<Rightarrow> pydict \<times> call list" where
  "search_certificates env c criteria =
     make_request env c ''GET'' ''certificate/search'' (with_params criteria)"

definition get_certificate_by_serial_request :: "argval \<Rightarrow> argval \<Rightarrow> exn + request" where
  "get_certificate_by_serial_request serial_number issuer_dn =
     (if arg_truthy issuer_dn then
        (case quote_arg issuer_dn of
           Inl e \<Rightarrow> Inl e
         | Inr encoded_dn \<Rightarrow>
             Inr \<lparr>rq_method = ''GET'',
                  rq_endpoint = ''certificate/'' @ encoded_dn @ ''/'' @ py_str serial_number,
                  rq_kwargs = no_kwargs\<rparr>)
      else Inr \<lparr>rq_method = ''GET'',
                rq_endpoint = ''certificate/serialnumber/'' @ py_str serial_number,
                rq_kwargs = no_kwargs\<rparr>)"

definition get_certificate_status_request :: "argval \<Rightarrow> argval \<Rightarrow> exn + request" where
  "get_certificate_status_request issuer_dn serial_number =
     (case quote_arg issuer_dn of
        Inl e \<Rightarrow> Inl e
      | Inr encoded_dn \<Rightarrow>
          Inr \<lparr>rq_method = ''GET'',
               rq_endpoint = ''certificate/'' @ encoded_dn @ ''/'' @ py_str serial_number
                              @ ''/revocationstatus'',
               rq_kwargs = no_kwargs\<rparr>)"

definition revoke_certificate_request :: "argval \<Rightarrow> argval \<Rightarrow> argval \<Rightarrow> exn + request" where
  "revoke_certificate_request issuer_dn serial_number reason =
     (case quote_arg issuer_dn of
        Inl e \<Rightarrow> Inl e
      | Inr encoded_dn \<Rightarrow>
          Inr \<lparr>rq_method = ''PUT'',
               rq_endpoint = ''certificate/'' @ encoded_dn @ ''/'' @ py_str serial_number @ ''/revoke'',
               rq_kwargs = with_json [(''reason'', arg_to_py reason)]\<rparr>)"

text \<open>The query parameters of the two CRL downloads, built the same way in both.\<close>

definition crl_params :: "argval \<Rightarrow> argval \<Rightarrow> pydict" where
  "crl_params delta_crl crl_partition_index =
     (let params = [];
          params = (if arg_truthy delta_crl
                    then AList.update ''deltaCrl'' (PStr ''true'') params else params);
          params = (if ne_zero crl_partition_index
                    then AList.update ''crlPartitionIndex'' (PStr (py_str crl_partition_index)) params
                    else params)
      in params)"

definition get_latest_crl_request :: "argval \<Rightarrow> argval \<Rightarrow> argval \<Rightarrow> exn + request" where
  "get_latest_crl_request issuer_dn delta_crl crl_partition_index =
     (case quote_arg issuer_dn of
        Inl e \<Rightarrow> Inl e
      | Inr encoded_dn \<Rightarrow>
          Inr \<lparr>rq_method = ''GET'',
               rq_endpoint = ''ca/'' @ encoded_dn @ ''/getLatestCrl'',
               rq_kwargs = with_params (crl_params delta_crl crl_partition_index)\<rparr>)"

definition get_crl_request :: "argval \<Rightarrow> argval \<Rightarrow> argval \<Rightarrow> exn + request" where
  "get_crl_request issuer_dn delta_crl crl_partition_index =
     (if arg_truthy issuer_dn then
        (case quote_arg issuer_dn of
           Inl e \<Rightarrow> Inl e
         | Inr encoded_dn \<Rightarrow>
             Inr \<lparr>rq_method = ''GET'',
                  rq_endpoint = ''ca/'' @ encoded_dn @ ''/getcrl'',
                  rq_kwargs = with_params (crl_params delta_crl crl_partition_index)\<rparr>)
      else Inr \<lparr>rq_method = ''GET'', rq_endpoint = ''ca/crl'', rq_kwargs = no_kwargs\<rparr>)"

definition create_crl_request :: "argval \<Rightarrow> argval \<Rightarrow> exn + request" where
  "create_crl_request issuer_dn delta_crl =
     (case quote_arg issuer_dn of
        Inl e \<Rightarrow> Inl e
      | Inr encoded_dn \<Rightarrow>
          Inr \<lparr>rq_method = ''POST'',
               rq_endpoint = ''ca/'' @ encoded_dn @ ''/createcrl'',
               rq_kwargs = with_params (if arg_truthy delta_crl
                                        then AList.update ''deltacrl'' (PStr ''true'') [] else [])\<rparr>)"

definition get_crl_info_request :: "argval \<Rightarrow> exn + request" where
  "get_crl_info_request issuer_dn =
     (case quote_arg issuer_dn of
        Inl e \<Rightarrow> Inl e
      | Inr encoded_dn \<Rightarrow>
          Inr \<lparr>rq_method = ''GET'', rq_endpoint = ''ca/'' @ encoded_dn @ ''/crlinfo'',
               rq_kwargs = no_kwargs\<rparr>)"

definition get_ca_certificate_request :: "argval \<Rightarrow> exn + request" where
  "get_ca_certificate_request ca_subject_dn =
     (case quote_arg ca_subject_dn of
        Inl e \<Rightarrow> Inl e
      | Inr encoded_dn \<Rightarrow>
          Inr \<lparr>rq_method = ''GET'', rq_endpoint = ''ca/'' @ encoded_dn @ ''/certificate/download'',
               rq_kwargs = no_kwargs\<rparr>)"

definition get_ca_certificates_request :: "argval \<Rightarrow> exn + request" where
  "get_ca_certificates_request ca_subject_dn =
     (case quote_arg ca_subject_dn of
        Inl e \<Rightarrow> Inl e
      | Inr encoded_dn \<Rightarrow>
          Inr \<lparr>rq_method = ''GET'', rq_endpoint = ''ca/'' @ encoded_dn @ ''/certificate'',
               rq_kwargs = no_kwargs\<rparr>)"

definition enroll_certificate_request ::
  "environment \<Rightarrow> argval \<Rightarrow> argval \<Rightarrow> argval \<Rightarrow> argval \<Rightarrow> argval \<Rightarrow> request" where
  "enroll_certificate_request env certificate_request ca_name certificate_profile
       end_entity_profile username =
     (let username = (if \<not> arg_truthy username then PStr (''mcp_user_'' @ timestamp env)
                      else arg_to_py username)
      in \<lparr>rq_method = ''POST'', rq_endpoint = ''certificate/enroll'',
          rq_kwargs = with_json [(''certificateRequest'', arg_to_py certificate_request),
                                 (''certificateAuthorityName'', arg_to_py ca_name),
                                 (''certificateProfileName'', arg_to_py certificate_profile),
                                 (''endEntityProfileName'', arg_to_py end_entity_profile),
                                 (''username'', username),
                                 (''password'', PStr ''mcp_temp_password'')]\<rparr>)"

section \<open>The tool handler\<close>

text \<open>\<open>arguments[k]\<close>, \<open>arguments.get(k, default)\<close> and \<open>result.get(k, default)\<close>.\<close>

definition getitem :: "arguments \<Rightarrow> string \<Rightarrow> exn + argval" where
  "getitem args k = (case args k of None \<Rightarrow> Inl (KeyError k) | Some v \<Rightarrow> Inr v)"

definition get_default :: "arguments \<Rightarrow> string \<Rightarrow> argval \<Rightarrow> argval" where
  "get_default args k d = (case args k of None \<Rightarrow> d | Some v \<Rightarrow> v)"

definition dict_get :: "pydict \<Rightarrow> string \<Rightarrow> pyval \<Rightarrow> pyval" where
  "dict_get d k dflt = (case map_of d k of None \<Rightarrow> dflt | Some v \<Rightarrow> v)"

text \<open>Python evaluates the arguments of a call from left to right, and the first exception
  ends the evaluation: \<open>and_then\<close> sequences two steps in that way.\<close>

definition and_then :: "exn + 'a \<Rightarrow> ('a \<Rightarrow> exn + 'b) \<Rightarrow> exn + 'b" where
  "and_then m f = (case m of Inl e \<Rightarrow> Inl e | Inr x \<Rightarrow> f x)"

definition search_criteria :: "arguments \<Rightarrow> pydict" where
  "search_criteria args =
     (let criteria = [];
          criteria = (case args ''query'' of
                        Some v \<Rightarrow> AList.update ''query'' (arg_to_py v) criteria | None \<Rightarrow> criteria);
          criteria = (case args ''max_results'' of
                        Some v \<Rightarrow> AList.update ''maxResults'' (arg_to_py v) criteria | None \<Rightarrow> criteria);
          criteria = (case args ''subject_dn'' of
                        Some v \<Rightarrow> AList.update ''subjectDN'' (arg_to_py v) criteria | None \<Rightarrow> criteria);
          criteria = (case args ''issuer_dn'' of
                        Some v \<Rightarrow> AList.update ''issuerDN'' (arg_to_py v) criteria | None \<Rightarrow> criteria)
      in criteria)"

definition test_ejbca_connection :: "environment \<Rightarrow> client \<Rightarrow> pydict \<times> call list" where
  "test_ejbca_connection env c =
     (let (health_result, calls1) = get_certificate_api_status env c;
          (ca_result, calls2) = get_ca_version env c
      in ([(''connection_test'', PStr ''completed''),
           (''certificate_api_status'', PDict health_result),
           (''ca_version'', PDict ca_result),
           (''certificates_available'', PBool (has_certificates c)),
           (''base_url'', PStr (base_url c))],
          calls1 @ calls2))"

definition recommendations :: "environment \<Rightarrow> client \<Rightarrow> pydict \<Rightarrow> pydict \<Rightarrow> pyval list" where
  "recommendations env c health_result ca_result =
     (let cert_exists = (if cert_path c \<noteq> [] then path_exists env (cert_path c) else False);
          key_exists = (if key_path c \<noteq> [] then path_exists env (key_path c) else False)
      in (if \<not> has_certificates c
          then [PStr ''Configure client certificates using EJBCA_CLIENT_CERT and EJBCA_CLIENT_KEY environment variables'']
          else [])
       @ (if \<not> cert_exists \<and> cert_path c \<noteq> []
          then [PStr (''Certificate file not found: '' @ cert_path c)] else [])
       @ (if \<not> key_exists \<and> key_path c \<noteq> []
          then [PStr (''Private key file not found: '' @ key_path c)] else [])
       @ (if truthy (dict_get health_result ''error'' PNone)
          then [PStr ''Certificate API not accessible - check EJBCA_BASE_URL and certificate authentication'']
          else [])
       @ (if truthy (dict_get ca_result ''error'' PNone)
          then [PStr ''CA API not accessible - verify EJBCA REST API is enabled''] else []))"

definition troubleshoot_connection :: "environment \<Rightarrow> client \<Rightarrow> pydict \<times> call list" where
  "troubleshoot_connection env c =
     (let cert_exists = (if cert_path c \<noteq> [] then path_exists env (cert_path c) else False);
          key_exists = (if key_path c \<noteq> [] then path_exists env (key_path c) else False);
          (health_result, calls1) = get_certificate_api_status env c;
          (ca_result, calls2) = get_ca_version env c;
          (ca_list_result, calls3) = get_ca_list env c
      in ([(''diagnostics'', PDict [(''base_url'', PStr (base_url c)),
                                    (''cert_path'', PStr (cert_path c)),
                                    (''key_path'', PStr (key_path c)),
                                    (''cert_exists'', PBool cert_exists),
                                    (''key_exists'', PBool key_exists),
                                    (''certificates_available'', PBool (has_certificates c))]),
           (''api_tests'', PDict [(''certificate_status'', PDict health_result),
                                  (''ca_version'', PDict ca_result),
                                  (''ca_list'', PDict ca_list_result)]),
           (''recommendations'', PList (recommendations env c health_result ca_result))],
          calls1 @ calls2 @ calls3))"

text \<open>
  The \<open>if\<close>/\<open>elif\<close> chain of \<open>handle_call_tool\<close> up to the client call: \<open>None\<close> for a name
  that no branch takes, \<open>Inl\<close> for an exception. An exception can only come from
  \<open>arguments[k]\<close> or from \<open>quote\<close>, both evaluated before \<open>_make_request\<close> is entered, and
  \<open>_make_request\<close> catches what its channels raise: an \<open>Inl\<close> carries no call.
\<close>

definition dispatch ::
  "environment \<Rightarrow> client \<Rightarrow> string \<Rightarrow> arguments \<Rightarrow> (exn + pydict \<times> call list) option" where
  "dispatch env c name args =
     (if name = ''test_ejbca_connection'' then Some (Inr (test_ejbca_connection env c))
      else if name = ''troubleshoot_connection'' then Some (Inr (troubleshoot_connection env c))
      else if name = ''get_certificate_api_status'' then Some (Inr (get_certificate_api_status env c))
      else if name = ''get_ca_list'' then Some (Inr (get_ca_list env c))
      else if name = ''get_ca_version'' then Some (Inr (get_ca_version env c))
      else if name = ''search_certificates''
        then Some (Inr (search_certificates env c (search_criteria args)))
      else if name = ''get_certificate_by_serial'' then
        Some (and_then (getitem args ''serial_number'') (\<lambda>serial_number.
              perform env c (get_certificate_by_serial_request serial_number
                               (get_default args ''issuer_dn'' ANull))))
      else if name = ''get_certificate_status'' then
        Some (and_then (getitem args ''issuer_dn'') (\<lambda>issuer_dn.
              and_then (getitem args ''serial_number'') (\<lambda>serial_number.
              perform env c (get_certificate_status_request issuer_dn serial_number))))
      else if name = ''revoke_certificate'' then
        Some (and_then (getitem args ''issuer_dn'') (\<lambda>issuer_dn.
              and_then (getitem args ''serial_number'') (\<lambda>serial_number.
              perform env c (revoke_certificate_request issuer_dn serial_number
                               (get_default args ''reason'' (AStr ''UNSPECIFIED''))))))
      else if name = ''get_crl'' then
        Some (perform env c (get_crl_request (get_default args ''issuer_dn'' ANull)
                               (get_default args ''delta_crl'' (ABool False))
                               (get_default args ''crl_partition_index'' (AInt 0))))
      else if name = ''get_latest_crl'' then
        Some (and_then (getitem args ''issuer_dn'') (\<lambda>issuer_dn.
              perform env c (get_latest_crl_request issuer_dn
                               (get_default args ''delta_crl'' (ABool False))
                               (get_default args ''crl_partition_index'' (AInt 0)))))
      else if name = ''create_crl'' then
        Some (and_then (getitem args ''issuer_dn'') (\<lambda>issuer_dn.
              perform env c (create_crl_request issuer_dn
                               (get_default args ''delta_crl'' (ABool False)))))
      else if name = ''get_crl_info'' then
        Some (and_then (getitem args ''issuer_dn'') (\<lambda>issuer_dn.
              perform env c (get_crl_info_request issuer_dn)))
      else if name = ''get_ca_certificate'' then
        Some (and_then (getitem args ''ca_subject_dn'') (\<lambda>ca_subject_dn.
              perform env c (get_ca_certificate_request ca_subject_dn)))
      else if name = ''get_ca_certificates'' then
        Some (and_then (getitem args ''ca_subject_dn'') (\<lambda>ca_subject_dn.
              perform env c (get_ca_certificates_request ca_subject_dn)))
      else if name = ''enroll_certificate'' then
        Some (and_then (getitem args ''certificate_request'') (\<lambda>certificate_request.
              and_then (getitem args ''ca_name'') (\<lambda>ca_name.
              Inr (send env c (enroll_certificate_request env certificate_request ca_name
                                 (get_default args ''certificate_profile'' (AStr ''ENDUSER''))
                                 (get_default args ''end_entity_profile'' (AStr ''EMPTY''))
                                 (get_default args ''username'' ANull))))))
      else None)"

text \<open>The \<open>required\<close> list of each tool's input schema in \<open>handle_list_tools\<close>.\<close>

definition required :: "string \<Rightarrow> string list" where
  "required name =
     (if name = ''get_certificate_by_serial'' then [''serial_number'']
      else if name = ''get_certificate_status'' then [''issuer_dn'', ''serial_number'']
      else if name = ''revoke_certificate'' then [''issuer_dn'', ''serial_number'']
      else if name = ''get_latest_crl'' then [''issuer_dn'']
      else if name = ''create_crl'' then [''issuer_dn'']
      else if name = ''get_crl_info'' then [''issuer_dn'']
      else if name = ''get_ca_certificate'' then [''ca_subject_dn'']
      else if name = ''get_ca_certificates'' then [''ca_subject_dn'']
      else if name = ''enroll_certificate'' then [''certificate_request'', ''ca_name'']
      else [])"

subsection \<open>Formatting the result\<close>

text \<open>
  The handler returns one text. The model keeps what the text is made of: the status
  word, the tool name, the method, the status code and the dictionary given to
  \<open>json.dumps\<close>. \<open>Text v suffix\<close> is the string \<open>str(v)\<close> followed by \<open>suffix\<close>. Every
  branch of \<open>dispatch\<close> yields a dictionary, so the branch for a result that is not one
  is never taken and is left out.
\<close>

datatype classification = SUCCESS | ERROR | WARNING

datatype shown = Val pyval | Text pyval string

datatype envelope =
    Formatted classification string pyval pyval "(string \<times> shown) list"
  | Failed string string
  | UnknownTool string

definition has_key :: "('k \<times> 'v) list \<Rightarrow> 'k \<Rightarrow> bool" where
  "has_key d k = (map_of d k \<noteq> None)"

definition classify :: "pydict \<Rightarrow> classification" where
  "classify result =
     (let status_code = dict_get result ''_status_code'' (PStr ''N/A'') in
      if has_key result ''error'' then ERROR
      else if truthy (dict_get result ''success'' PNone) \<or> py_eq_int status_code 200 then SUCCESS
      else WARNING)"

definition display :: "pydict \<Rightarrow> exn + (string \<times> shown) list" where
  "display result =
     (let display_result = AList.delete ''_url''
                             (AList.delete ''_status_code'' (AList.delete ''_method'' result))
      in case map_of display_result ''crl_data'' of
           None \<Rightarrow> Inr (map (\<lambda>(k, v). (k, Val v)) display_result)
         | Some crl_data \<Rightarrow>
             (let rest = map (\<lambda>(k, v). (k, Val v)) (AList.delete ''crl_data'' display_result) in
              case py_len crl_data of
                Inl e \<Rightarrow> Inl e
              | Inr n \<Rightarrow>
                  (let sized = AList.update ''crl_size_bytes'' (Val (PInt (int n))) rest in
                   if n > 50 then
                     (case slice50 crl_data of
                        Inl e \<Rightarrow> Inl e
                      | Inr head \<Rightarrow> Inr (AList.update ''crl_data_preview'' (Text head ''...'') sized))
                   else Inr (AList.update ''crl_data_preview'' (Text crl_data []) sized))))"

text \<open>Lines 827 to 876: the formatted text, or the text of the \<open>except\<close> branch.\<close>

definition format_result :: "string \<Rightarrow> pydict \<Rightarrow> envelope" where
  "format_result name result =
     (case display result of
        Inl e \<Rightarrow> Failed name (str_exn e)
      | Inr display_result \<Rightarrow>
          Formatted (classify result) name
            (dict_get result ''_method'' (PStr ''unknown''))
            (dict_get result ''_status_code'' (PStr ''N/A''))
            display_result)"

definition handle_call_tool ::
  "environment \<Rightarrow> client \<Rightarrow> string \<Rightarrow> arguments \<Rightarrow> envelope \<times> call list" where
  "handle_call_tool env c name args =
     (case dispatch env c name args of
        None \<Rightarrow> (UnknownTool name, [])
      | Some (Inl e) \<Rightarrow> (Failed name (str_exn e), [])
      | Some (Inr (result, calls)) \<Rightarrow> (format_result name result, calls))"

text \<open>What an envelope says: its status word, its channel, its byte-length field and its
  error message.\<close>

fun status_text :: "envelope \<Rightarrow> classification option" where
  "status_text (Formatted st name method status_code body) = Some st"
| "status_text (Failed name msg) = Some ERROR"
| "status_text (UnknownTool name) = None"

fun channel :: "envelope \<Rightarrow> pyval option" where
  "channel (Formatted st name method status_code body) = Some method"
| "channel _ = None"

fun body_field :: "envelope \<Rightarrow> string \<Rightarrow> shown option" where
  "body_field (Formatted st name method status_code body) k = map_of body k"
| "body_field _ k = None"

fun error_message :: "envelope \<Rightarrow> bool" where
  "error_message (Formatted st name method status_code body) = has_key body ''error''"
| "error_message (Failed name msg) = True"
| "error_message (UnknownTool name) = True"

text \<open>The query parameters a request carries; a request without \<open>params\<close> carries none.\<close>

definition query_params :: "request \<Rightarrow> pydict" where
  "query_params r = (case kw_params (rq_kwargs r) of None \<Rightarrow> [] | Some ps \<Rightarrow> ps)"

text \<open>
  The revocation reasons, as the description of \<open>reason\<close> in the schema of
  \<open>revoke_certificate\<close> lists them. The schema has no \<open>enum\<close> for them and no code reads
  the list.
\<close>

definition revocation_reasons :: "string list" where
  "revocation_reasons =
     [''UNSPECIFIED'', ''KEY_COMPROMISE'', ''CA_COMPROMISE'', ''AFFILIATION_CHANGED'',
      ''SUPERSEDED'', ''CESSATION_OF_OPERATION'', ''CERTIFICATE_HOLD'', ''REMOVE_FROM_CRL'',
      ''PRIVILEGE_WITHDRAWN'', ''AA_COMPROMISE'']"

section \<open>Test fixtures\<close>

text \<open>
  A world that answers every primary call, every command and every \<open>json.loads\<close> the same
  way, and a client as the module builds it from its defaults.
\<close>

definition fixed_env :: "exn + response \<Rightarrow> run_outcome \<Rightarrow> pyval option \<Rightarrow> bool \<Rightarrow> environment" where
  "fixed_env primary fallback parsed files =
     \<lparr>session_request = (\<lambda>method url kw. primary),
      subprocess_run = (\<lambda>cmd. fallback),
      json_loads = (\<lambda>s. parsed),
      json_dumps = (\<lambda>v. ''{}''),
      path_exists = (\<lambda>p. files),
      timestamp = ''20250101_120000''\<rparr>"

definition test_client :: "bool \<Rightarrow> client" where
  "test_client files =
     init_client (fixed_env (Inl (OtherException [])) TimeoutExpired None files)
       ''https://localhost:443/'' ''/certs/client.pem'' ''/certs/client.key''"

definition reply :: "int \<Rightarrow> string option \<Rightarrow> nat list \<Rightarrow> string \<Rightarrow> pyval option \<Rightarrow> response" where
  "reply st ct bytes txt parsed =
     \<lparr>resp_status_code = st, resp_content_type = ct, resp_content = bytes,
      resp_text = txt, resp_json = parsed\<rparr>"

section \<open>Auxiliary facts\<close>

lemma test_client_True:
  "test_client True = \<lparr>base_url = ''https://localhost:443'', cert_path = ''/certs/client.pem'',
                         key_path = ''/certs/client.key'', has_certificates = True\<rparr>"
  by (simp add: test_client_def init_client_def rstrip_slash_def fixed_env_def)


lemma setitem_not_dict: "\<forall>d. v \<noteq> PDict d \<Longrightarrow> \<exists>msg. setitem v k x = Inl (TypeError msg)"
  by (cases v) simp_all

lemma setitem_stores: "setitem v k x = Inr r \<Longrightarrow> map_of r k = Some x"
  by (cases v) (auto simp: update_conv')

lemma curl_fallback_calls:
  "has_certificates c \<Longrightarrow>
     snd (curl_fallback env c method endpoint data) = [Fallback (curl_cmd env c method endpoint data)]"
  by (simp add: curl_fallback_def Let_def)

lemma curl_fallback_method:
  "has_certificates c \<Longrightarrow>
     map_of (fst (curl_fallback env c method endpoint data)) ''_method'' = Some (PStr ''curl'')"
  by (auto simp: curl_fallback_def Let_def setitem_stores
           split: run_outcome.splits option.splits sum.splits)

lemma make_request_after_exception:
  assumes "has_certificates c" and "primary_attempt env c method endpoint kw = Inl e"
  shows "make_request env c method endpoint kw =
           (fst (curl_fallback env c method endpoint (kw_json kw)),
            [Primary method (api_url c endpoint) kw,
             Fallback (curl_cmd env c method endpoint (kw_json kw))])"
proof -
  have "make_request env c method endpoint kw =
          (fst (curl_fallback env c method endpoint (kw_json kw)),
           Primary method (api_url c endpoint) kw
             # snd (curl_fallback env c method endpoint (kw_json kw)))"
    using assms by (simp add: make_request_def split: prod.splits)
  then show ?thesis
    using curl_fallback_calls [OF assms(1)] by simp
qed

lemma test_curl_cmd:
  "curl_cmd env (test_client True) ''GET'' ''ca'' None =
     [''curl'', ''-s'', ''-k'', ''--cert'', ''/certs/client.pem'', ''--key'', ''/certs/client.key'',
      ''-H'', ''X-Keyfactor-Requested-With: XMLHttpRequest'',
      ''-H'', ''Content-Type: application/json'',
      ''-H'', ''Accept: application/json'',
      ''https://localhost:443/ejbca/ejbca-rest-api/v1/ca'']"
  by (simp add: curl_cmd_def test_client_True upper_def opt_truthy_def api_url_def)

lemma required_names:
  "k \<in> set (required name) \<Longrightarrow>
     name \<in> {''get_certificate_by_serial'', ''get_certificate_status'', ''revoke_certificate'',
             ''get_latest_crl'', ''create_crl'', ''get_crl_info'', ''get_ca_certificate'',
             ''get_ca_certificates'', ''enroll_certificate''}"
  by (simp add: required_def split: if_splits)

lemma hex_digit_safe: "always_safe (hex_digit n)"
proof -
  have "n mod 16 < length ''0123456789ABCDEF''" by simp
  then have "hex_digit n \<in> set ''0123456789ABCDEF''"
    unfolding hex_digit_def by (rule nth_mem)
  then show ?thesis by (auto simp: always_safe_def)
qed

lemma quote_char_alphabet: "x \<in> set (quote_char ch) \<Longrightarrow> always_safe x \<or> x = CHR ''%''"
  by (auto simp: quote_char_def pct_def utf8_def Let_def hex_digit_safe split: if_splits)

lemma quote_alphabet: "x \<in> set (quote s) \<Longrightarrow> always_safe x \<or> x = CHR ''%''"
  by (auto simp: quote_def dest: quote_char_alphabet)

lemma quote_no_slash: "CHR ''/'' \<notin> set (quote s)"
  using quote_alphabet [of "CHR ''/''" s] by (auto simp: always_safe_def)

lemma make_request_first_call:
  "has_certificates c \<Longrightarrow>
     \<exists>rest. snd (make_request env c method endpoint kw) = Primary method (api_url c endpoint) kw # rest"
  by (auto simp: make_request_def split: sum.splits prod.splits)

lemma handle_call_tool_calls:
  "dispatch env c name args = Some (Inr p) \<Longrightarrow> snd (handle_call_tool env c name args) = snd p"
  by (cases p) (simp add: handle_call_tool_def)

lemma quote_test: "quote ''CN=Test CA'' = ''CN%3DTest%20CA''"
  by (simp add: quote_def quote_char_def always_safe_def pct_def utf8_def hex_digit_def)

lemma crl_params_default:
  "\<not> arg_truthy delta \<Longrightarrow> \<not> ne_zero idx \<Longrightarrow> crl_params delta idx = []"
  by (simp add: crl_params_def)

lemma crl_params_partition:
  "ne_zero idx \<Longrightarrow> map_of (crl_params delta idx) ''crlPartitionIndex'' = Some (PStr (py_str idx))"
  by (simp add: crl_params_def update_conv')

lemma map_of_shown:
  "map_of (map (\<lambda>(k, v). (k, Val v)) xs) k = map_option Val (map_of xs k)"
  by (induction xs) auto

lemma display_crl_data:
  "map_of (AList.delete ''_url'' (AList.delete ''_status_code'' (AList.delete ''_method'' result)))
     ''crl_data'' = map_of result ''crl_data''"
  by (simp add: delete_conv')

lemma display_error_key:
  "display result = Inr d \<Longrightarrow> has_key d ''error'' = has_key result ''error''"
  by (auto simp: display_def Let_def has_key_def map_of_shown delete_conv' update_conv'
           split: option.splits sum.splits if_splits)

lemma display_raises:
  "display result = Inl e \<longleftrightarrow>
     (\<exists>v. map_of result ''crl_data'' = Some v
          \<and> (py_len v = Inl e \<or> (\<exists>n. py_len v = Inr n \<and> n > 50 \<and> slice50 v = Inl e)))"
  by (auto simp: display_def Let_def display_crl_data split: option.splits sum.splits)







lemmas handler_defs = handle_call_tool_def dispatch_def and_then_def getitem_def required_def

section \<open>The transport\<close>

text \<open>
  Claim C4. When the primary channel answers with a status outside 200 to 299, that
  status comes back as an error outcome and the fallback is not run: the only call is the
  primary one. When the primary channel raises, the fallback command is run exactly once
  after it and the outcome's \<open>_method\<close> reads \<open>curl\<close>.
\<close>

theorem fallback_only_on_exception:
  assumes "has_certificates c"
  shows "(session_request env method (api_url c endpoint) kw = Inr resp
            \<and> \<not> (200 \<le> resp_status_code resp \<and> resp_status_code resp \<le> 299)
          \<longrightarrow> make_request env c method endpoint kw =
                ([(''error'', PStr (''HTTP '' @ str_int (resp_status_code resp))),
                  (''message'', PStr (take 500 (resp_text resp))),
                  (''_method'', PStr ''requests''),
                  (''_status_code'', PInt (resp_status_code resp)),
                  (''_url'', PStr (api_url c endpoint))],
                 [Primary method (api_url c endpoint) kw])
              \<and> classify (fst (make_request env c method endpoint kw)) = ERROR)
       \<and> (session_request env method (api_url c endpoint) kw = Inl e
          \<longrightarrow> snd (make_request env c method endpoint kw) =
                  [Primary method (api_url c endpoint) kw,
                   Fallback (curl_cmd env c method endpoint (kw_json kw))]
              \<and> dict_get (fst (make_request env c method endpoint kw)) ''_method'' (PStr ''unknown'')
                  = PStr ''curl'')"
proof (intro conjI impI)
  assume a: "session_request env method (api_url c endpoint) kw = Inr resp
             \<and> \<not> (200 \<le> resp_status_code resp \<and> resp_status_code resp \<le> 299)"
  then have "resp_status_code resp \<noteq> 200" by auto
  with a assms show m: "make_request env c method endpoint kw =
                ([(''error'', PStr (''HTTP '' @ str_int (resp_status_code resp))),
                  (''message'', PStr (take 500 (resp_text resp))),
                  (''_method'', PStr ''requests''),
                  (''_status_code'', PInt (resp_status_code resp)),
                  (''_url'', PStr (api_url c endpoint))],
                 [Primary method (api_url c endpoint) kw])"
    by (simp add: make_request_def primary_attempt_def Let_def)
  show "classify (fst (make_request env c method endpoint kw)) = ERROR"
    by (simp add: m classify_def has_key_def)
next
  assume a: "session_request env method (api_url c endpoint) kw = Inl e"
  then have p: "primary_attempt env c method endpoint kw = Inl e"
    by (simp add: primary_attempt_def Let_def)
  note m = make_request_after_exception [OF assms p]
  show "snd (make_request env c method endpoint kw) =
          [Primary method (api_url c endpoint) kw,
           Fallback (curl_cmd env c method endpoint (kw_json kw))]"
    using m by simp
  show "dict_get (fst (make_request env c method endpoint kw)) ''_method'' (PStr ''unknown'')
          = PStr ''curl''"
    using m curl_fallback_method [OF assms] by (simp add: dict_get_def)
qed

theorem fallback_only_on_exception_witness:
  "has_certificates (test_client True)
   \<and> make_request (fixed_env (Inr (reply 404 (Some ''text/html'') [] ''Not Found'' None))
                      (Completed 0 ''{}'' []) (Some (PDict [])) True)
        (test_client True) ''GET'' ''ca'' no_kwargs =
       ([(''error'', PStr ''HTTP 404''),
         (''message'', PStr ''Not Found''),
         (''_method'', PStr ''requests''),
         (''_status_code'', PInt 404),
         (''_url'', PStr ''https://localhost:443/ejbca/ejbca-rest-api/v1/ca'')],
        [Primary ''GET'' ''https://localhost:443/ejbca/ejbca-rest-api/v1/ca'' no_kwargs])
   \<and> make_request (fixed_env (Inl (OtherException ''Connection refused''))
                      (Completed 0 ''{}'' []) (Some (PDict [])) True)
        (test_client True) ''GET'' ''ca'' no_kwargs =
       ([(''_method'', PStr ''curl'')],
        [Primary ''GET'' ''https://localhost:443/ejbca/ejbca-rest-api/v1/ca'' no_kwargs,
         Fallback [''curl'', ''-s'', ''-k'', ''--cert'', ''/certs/client.pem'',
                   ''--key'', ''/certs/client.key'',
                   ''-H'', ''X-Keyfactor-Requested-With: XMLHttpRequest'',
                   ''-H'', ''Content-Type: application/json'',
                   ''-H'', ''Accept: application/json'',
                   ''https://localhost:443/ejbca/ejbca-rest-api/v1/ca'']])"
proof -
  let ?down = "fixed_env (Inr (reply 404 (Some ''text/html'') [] ''Not Found'' None))
                 (Completed 0 ''{}'' []) (Some (PDict [])) True"
  let ?dead = "fixed_env (Inl (OtherException ''Connection refused''))
                 (Completed 0 ''{}'' []) (Some (PDict [])) True"
  have h: "has_certificates (test_client True)"
    by (simp add: test_client_True)
  have url: "api_url (test_client True) ''ca'' = ''https://localhost:443/ejbca/ejbca-rest-api/v1/ca''"
    by (simp add: api_url_def test_client_True)
  have a: "session_request ?down ''GET'' (api_url (test_client True) ''ca'') no_kwargs
             = Inr (reply 404 (Some ''text/html'') [] ''Not Found'' None)
           \<and> \<not> (200 \<le> resp_status_code (reply 404 (Some ''text/html'') [] ''Not Found'' None)
                \<and> resp_status_code (reply 404 (Some ''text/html'') [] ''Not Found'' None) \<le> 299)"
    by (simp add: fixed_env_def reply_def)
  have b: "session_request ?dead ''GET'' (api_url (test_client True) ''ca'') no_kwargs
             = Inl (OtherException ''Connection refused'')"
    by (simp add: fixed_env_def)
  have first: "make_request ?down (test_client True) ''GET'' ''ca'' no_kwargs =
       ([(''error'', PStr ''HTTP 404''),
         (''message'', PStr ''Not Found''),
         (''_method'', PStr ''requests''),
         (''_status_code'', PInt 404),
         (''_url'', PStr ''https://localhost:443/ejbca/ejbca-rest-api/v1/ca'')],
        [Primary ''GET'' ''https://localhost:443/ejbca/ejbca-rest-api/v1/ca'' no_kwargs])"
    using fallback_only_on_exception [OF h, of ?down "''GET''" "''ca''" no_kwargs
            "reply 404 (Some ''text/html'') [] ''Not Found'' None"] a
    by (simp add: url reply_def str_int_def str_nat.simps)
  have fb: "fst (make_request ?dead (test_client True) ''GET'' ''ca'' no_kwargs)
              = [(''_method'', PStr ''curl'')]"
    using h b by (simp add: make_request_def primary_attempt_def curl_fallback_def fixed_env_def
                            Let_def no_kwargs_def)
  have "snd (make_request ?dead (test_client True) ''GET'' ''ca'' no_kwargs) =
          [Primary ''GET'' ''https://localhost:443/ejbca/ejbca-rest-api/v1/ca'' no_kwargs,
           Fallback (curl_cmd ?dead (test_client True) ''GET'' ''ca'' (kw_json no_kwargs))]"
    using fallback_only_on_exception [OF h, of ?dead "''GET''" "''ca''" no_kwargs _
            "OtherException ''Connection refused''"] b
    by (simp add: url)
  then have second: "make_request ?dead (test_client True) ''GET'' ''ca'' no_kwargs =
       ([(''_method'', PStr ''curl'')],
        [Primary ''GET'' ''https://localhost:443/ejbca/ejbca-rest-api/v1/ca'' no_kwargs,
         Fallback [''curl'', ''-s'', ''-k'', ''--cert'', ''/certs/client.pem'',
                   ''--key'', ''/certs/client.key'',
                   ''-H'', ''X-Keyfactor-Requested-With: XMLHttpRequest'',
                   ''-H'', ''Content-Type: application/json'',
                   ''-H'', ''Accept: application/json'',
                   ''https://localhost:443/ejbca/ejbca-rest-api/v1/ca'']])"
    using fb by (simp add: prod_eq_iff test_curl_cmd no_kwargs_def)
  show ?thesis
    using h first second by simp
qed

text \<open>
  Claim C9. A 200 response whose body parses to a JSON value that is not an object makes
  the primary attempt fail with a \<open>TypeError\<close> at \<open>result["_method"] = "requests"\<close>; the
  parsed body is not returned, the fallback command is run and its outcome is the result.
\<close>

theorem non_object_json_goes_to_fallback:
  assumes "has_certificates c"
    and "session_request env method (api_url c endpoint) kw = Inr resp"
    and "resp_status_code resp = 200"
    and "resp_json resp = Some v"
    and "\<forall>d. v \<noteq> PDict d"
  shows "(\<exists>msg. primary_attempt env c method endpoint kw = Inl (TypeError msg))
         \<and> make_request env c method endpoint kw =
             (fst (curl_fallback env c method endpoint (kw_json kw)),
              [Primary method (api_url c endpoint) kw,
               Fallback (curl_cmd env c method endpoint (kw_json kw))])"
proof -
  obtain msg where m: "setitem v ''_method'' (PStr ''requests'') = Inl (TypeError msg)"
    using setitem_not_dict [OF assms(5)] by blast
  have p: "primary_attempt env c method endpoint kw = Inl (TypeError msg)"
    using assms(2-4) m by (simp add: primary_attempt_def Let_def)
  show ?thesis
    using p make_request_after_exception [OF assms(1) p] by simp
qed

theorem non_object_json_goes_to_fallback_witness:
  "has_certificates (test_client True)
   \<and> resp_status_code (reply 200 (Some ''application/json'') [91, 93] ''[]'' (Some (PList []))) = 200
   \<and> resp_json (reply 200 (Some ''application/json'') [91, 93] ''[]'' (Some (PList []))) = Some (PList [])
   \<and> (\<forall>d. PList [] \<noteq> PDict d)
   \<and> make_request (fixed_env (Inr (reply 200 (Some ''application/json'') [91, 93] ''[]'' (Some (PList []))))
                      (Completed 0 ''[]'' []) (Some (PList [])) True)
        (test_client True) ''GET'' ''ca'' no_kwargs =
       ([(''error'', PStr ''Curl command failed: list indices must be integers or slices, not str''),
         (''_method'', PStr ''curl'')],
        [Primary ''GET'' ''https://localhost:443/ejbca/ejbca-rest-api/v1/ca'' no_kwargs,
         Fallback [''curl'', ''-s'', ''-k'', ''--cert'', ''/certs/client.pem'',
                   ''--key'', ''/certs/client.key'',
                   ''-H'', ''X-Keyfactor-Requested-With: XMLHttpRequest'',
                   ''-H'', ''Content-Type: application/json'',
                   ''-H'', ''Accept: application/json'',
                   ''https://localhost:443/ejbca/ejbca-rest-api/v1/ca'']])"
proof -
  let ?resp = "reply 200 (Some ''application/json'') [91, 93] ''[]'' (Some (PList []))"
  let ?env = "fixed_env (Inr ?resp) (Completed 0 ''[]'' []) (Some (PList [])) True"
  have h1: "has_certificates (test_client True)"
    by (simp add: test_client_True)
  have h2: "session_request ?env ''GET'' (api_url (test_client True) ''ca'') no_kwargs = Inr ?resp"
    by (simp add: fixed_env_def)
  have h3: "resp_status_code ?resp = 200" by (simp add: reply_def)
  have h4: "resp_json ?resp = Some (PList [])" by (simp add: reply_def)
  have h5: "\<forall>d. PList [] \<noteq> PDict d" by simp
  have url: "api_url (test_client True) ''ca'' = ''https://localhost:443/ejbca/ejbca-rest-api/v1/ca''"
    by (simp add: api_url_def test_client_True)
  have fb: "fst (curl_fallback ?env (test_client True) ''GET'' ''ca'' None) =
              [(''error'', PStr ''Curl command failed: list indices must be integers or slices, not str''),
               (''_method'', PStr ''curl'')]"
    using h1 by (simp add: curl_fallback_def fixed_env_def Let_def)
  show ?thesis
    using non_object_json_goes_to_fallback [OF h1 h2 h3 h4 h5] h1 h3 h4
    by (simp add: fb url test_curl_cmd no_kwargs_def)
qed

text \<open>
  Claim C10. A fallback command that ends with exit code 0 and prints nothing gives an
  error outcome that reports the exit code, and that outcome is classified \<open>ERROR\<close>: the
  exit code alone does not make a success.
\<close>

theorem curl_exit_zero_without_output:
  assumes "has_certificates c"
    and "subprocess_run env (curl_cmd env c method endpoint data) = Completed 0 [] err"
  shows "curl_fallback env c method endpoint data =
           ([(''error'', PStr ''Curl failed (exit code: 0)''),
             (''stderr'', PStr err),
             (''_method'', PStr ''curl'')],
            [Fallback (curl_cmd env c method endpoint data)])
         \<and> classify (fst (curl_fallback env c method endpoint data)) = ERROR"
  using assms
  by (simp add: curl_fallback_def Let_def str_int_def str_nat.simps classify_def has_key_def)

theorem curl_exit_zero_without_output_witness:
  "has_certificates (test_client True)
   \<and> subprocess_run (fixed_env (Inl (OtherException ''timed out''))
                        (Completed 0 [] ''curl: (7)'') None True)
        (curl_cmd (fixed_env (Inl (OtherException ''timed out''))
                     (Completed 0 [] ''curl: (7)'') None True)
           (test_client True) ''GET'' ''ca'' None) = Completed 0 [] ''curl: (7)''
   \<and> curl_fallback (fixed_env (Inl (OtherException ''timed out''))
                       (Completed 0 [] ''curl: (7)'') None True)
        (test_client True) ''GET'' ''ca'' None =
       ([(''error'', PStr ''Curl failed (exit code: 0)''),
         (''stderr'', PStr ''curl: (7)''),
         (''_method'', PStr ''curl'')],
        [Fallback [''curl'', ''-s'', ''-k'', ''--cert'', ''/certs/client.pem'',
                   ''--key'', ''/certs/client.key'',
                   ''-H'', ''X-Keyfactor-Requested-With: XMLHttpRequest'',
                   ''-H'', ''Content-Type: application/json'',
                   ''-H'', ''Accept: application/json'',
                   ''https://localhost:443/ejbca/ejbca-rest-api/v1/ca'']])"
proof -
  let ?env = "fixed_env (Inl (OtherException ''timed out'')) (Completed 0 [] ''curl: (7)'') None True"
  have h1: "has_certificates (test_client True)"
    by (simp add: test_client_True)
  have h2: "subprocess_run ?env (curl_cmd ?env (test_client True) ''GET'' ''ca'' None)
              = Completed 0 [] ''curl: (7)''"
    by (simp add: fixed_env_def)
  show ?thesis
    using curl_exit_zero_without_output [OF h1 h2] h1 h2 by (simp add: test_curl_cmd)
qed

section \<open>The handler\<close>

text \<open>
  Claim C8. Calling a tool without one of the arguments its schema requires ends in the
  \<open>ERROR\<close> text of the \<open>except\<close> branch, carrying the \<open>KeyError\<close> of a missing required
  key, and no transport call is made: neither the primary channel nor the fallback
  command is run.
\<close>

theorem missing_required_argument:
  assumes "k \<in> set (required name)" and "args k = None"
  shows "status_text (fst (handle_call_tool env c name args)) = Some ERROR
         \<and> snd (handle_call_tool env c name args) = []
         \<and> (\<exists>k' \<in> set (required name). args k' = None
               \<and> fst (handle_call_tool env c name args) = Failed name (str_exn (KeyError k')))"
proof -
  let ?goal = "\<lambda>name. status_text (fst (handle_call_tool env c name args)) = Some ERROR
         \<and> snd (handle_call_tool env c name args) = []
         \<and> (\<exists>k' \<in> set (required name). args k' = None
               \<and> fst (handle_call_tool env c name args) = Failed name (str_exn (KeyError k')))"
  have 1: "k \<in> set (required ''get_certificate_by_serial'') \<Longrightarrow> ?goal ''get_certificate_by_serial''"
    using assms(2) by (simp add: handler_defs)
  have 2: "k \<in> set (required ''get_certificate_status'') \<Longrightarrow> ?goal ''get_certificate_status''"
    using assms(2) by (auto simp: handler_defs split: option.splits)
  have 3: "k \<in> set (required ''revoke_certificate'') \<Longrightarrow> ?goal ''revoke_certificate''"
    using assms(2) by (auto simp: handler_defs split: option.splits)
  have 4: "k \<in> set (required ''get_latest_crl'') \<Longrightarrow> ?goal ''get_latest_crl''"
    using assms(2) by (simp add: handler_defs)
  have 5: "k \<in> set (required ''create_crl'') \<Longrightarrow> ?goal ''create_crl''"
    using assms(2) by (simp add: handler_defs)
  have 6: "k \<in> set (required ''get_crl_info'') \<Longrightarrow> ?goal ''get_crl_info''"
    using assms(2) by (simp add: handler_defs)
  have 7: "k \<in> set (required ''get_ca_certificate'') \<Longrightarrow> ?goal ''get_ca_certificate''"
    using assms(2) by (simp add: handler_defs)
  have 8: "k \<in> set (required ''get_ca_certificates'') \<Longrightarrow> ?goal ''get_ca_certificates''"
    using assms(2) by (simp add: handler_defs)
  have 9: "k \<in> set (required ''enroll_certificate'') \<Longrightarrow> ?goal ''enroll_certificate''"
    using assms(2) by (auto simp: handler_defs split: option.splits)
  from required_names [OF assms(1)] assms(1) show ?thesis
    using 1 2 3 4 5 6 7 8 9 by blast
qed

theorem missing_required_argument_witness:
  "''serial_number'' \<in> set (required ''revoke_certificate'')
   \<and> [''issuer_dn'' \<mapsto> AStr ''CN=Test CA''] ''serial_number'' = None
   \<and> handle_call_tool (fixed_env (Inl (OtherException [])) TimeoutExpired None True)
        (test_client True) ''revoke_certificate'' [''issuer_dn'' \<mapsto> AStr ''CN=Test CA'']
       = (Failed ''revoke_certificate'' [CHR 0x27, CHR ''s'', CHR ''e'', CHR ''r'', CHR ''i'', CHR ''a'',
            CHR ''l'', CHR ''_'', CHR ''n'', CHR ''u'', CHR ''m'', CHR ''b'', CHR ''e'', CHR ''r'', CHR 0x27], [])"
proof -
  let ?args = "[''issuer_dn'' \<mapsto> AStr ''CN=Test CA'']"
  have h1: "''serial_number'' \<in> set (required ''revoke_certificate'')"
    by (simp add: required_def)
  have h2: "?args ''serial_number'' = None" by simp
  show ?thesis
    using missing_required_argument
            [where k = "''serial_number''" and name = "''revoke_certificate''" and args = ?args
               and env = "fixed_env (Inl (OtherException [])) TimeoutExpired None True"
               and c = "test_client True", OF h1 h2] h1 h2
    by (auto simp: required_def prod_eq_iff)
qed

section \<open>The requests\<close>

text \<open>
  Claim C1, as amended. \<open>revoke_certificate\<close> does not check the reason. With an issuer DN
  that is a string and a serial number, the tool builds the \<open>PUT\<close> request to
  \<open>certificate/{quoted DN}/{serial}/revoke\<close> whose body holds the reason it was given
  (\<open>UNSPECIFIED\<close> when there is none), unchanged; with certificates at hand the primary
  channel is called with that request.
\<close>

theorem revoke_reason_forwarded:
  assumes "args ''issuer_dn'' = Some (AStr dn)" and "args ''serial_number'' = Some sn"
  shows "dispatch env c ''revoke_certificate'' args =
           Some (Inr (make_request env c ''PUT''
                        (''certificate/'' @ quote dn @ ''/'' @ py_str sn @ ''/revoke'')
                        (with_json [(''reason'',
                            arg_to_py (get_default args ''reason'' (AStr ''UNSPECIFIED'')))])))
         \<and> (has_certificates c \<longrightarrow>
              (\<exists>rest. snd (handle_call_tool env c ''revoke_certificate'' args) =
                 Primary ''PUT''
                   (api_url c (''certificate/'' @ quote dn @ ''/'' @ py_str sn @ ''/revoke''))
                   (with_json [(''reason'',
                       arg_to_py (get_default args ''reason'' (AStr ''UNSPECIFIED'')))]) # rest))"
proof -
  have d: "dispatch env c ''revoke_certificate'' args =
           Some (Inr (make_request env c ''PUT''
                        (''certificate/'' @ quote dn @ ''/'' @ py_str sn @ ''/revoke'')
                        (with_json [(''reason'',
                            arg_to_py (get_default args ''reason'' (AStr ''UNSPECIFIED'')))])))"
    using assms
    by (simp add: dispatch_def and_then_def getitem_def perform_def send_def
                  revoke_certificate_request_def)
  show ?thesis
    using d handle_call_tool_calls [OF d] make_request_first_call by auto
qed

theorem revoke_reason_forwarded_witness:
  "[''issuer_dn'' \<mapsto> AStr ''CN=Test CA'', ''serial_number'' \<mapsto> AStr ''1A2B3C'',
    ''reason'' \<mapsto> AStr ''KEY_COMPROMISE''] ''issuer_dn'' = Some (AStr ''CN=Test CA'')
   \<and> has_certificates (test_client True)
   \<and> (\<exists>rest. snd (handle_call_tool
          (fixed_env (Inr (reply 200 (Some ''application/json'') [123, 125] ''{}'' (Some (PDict []))))
             TimeoutExpired None True)
          (test_client True) ''revoke_certificate''
          [''issuer_dn'' \<mapsto> AStr ''CN=Test CA'', ''serial_number'' \<mapsto> AStr ''1A2B3C'',
           ''reason'' \<mapsto> AStr ''KEY_COMPROMISE'']) =
        Primary ''PUT''
          ''https://localhost:443/ejbca/ejbca-rest-api/v1/certificate/CN%3DTest%20CA/1A2B3C/revoke''
          (with_json [(''reason'', PStr ''KEY_COMPROMISE'')]) # rest)"
proof -
  let ?args = "[''issuer_dn'' \<mapsto> AStr ''CN=Test CA'', ''serial_number'' \<mapsto> AStr ''1A2B3C'',
                ''reason'' \<mapsto> AStr ''KEY_COMPROMISE'']"
  have h1: "?args ''issuer_dn'' = Some (AStr ''CN=Test CA'')" by simp
  have h2: "?args ''serial_number'' = Some (AStr ''1A2B3C'')" by simp
  have h3: "has_certificates (test_client True)" by (simp add: test_client_True)
  show ?thesis
    using revoke_reason_forwarded [where args = ?args and dn = "''CN=Test CA''"
            and sn = "AStr ''1A2B3C''" and c = "test_client True"
            and env = "fixed_env (Inr (reply 200 (Some ''application/json'') [123, 125] ''{}'' (Some (PDict []))))
             TimeoutExpired None True", OF h1 h2] h3
    by (simp add: quote_test get_default_def api_url_def test_client_True)
qed

text \<open>A reason outside the list is sent to the backend like any other, and the answer is
  reported as a success.\<close>

theorem revoke_reason_unchecked_counterexample:
  "''NOT_A_REASON'' \<notin> set revocation_reasons
   \<and> handle_call_tool
        (fixed_env (Inr (reply 200 (Some ''application/json'') [123, 125] ''{}'' (Some (PDict []))))
           TimeoutExpired None True)
        (test_client True) ''revoke_certificate''
        [''issuer_dn'' \<mapsto> AStr ''CN=Test CA'', ''serial_number'' \<mapsto> AStr ''1A2B3C'',
         ''reason'' \<mapsto> AStr ''NOT_A_REASON'']
     = (Formatted SUCCESS ''revoke_certificate'' (PStr ''requests'') (PInt 200) [],
        [Primary ''PUT''
           ''https://localhost:443/ejbca/ejbca-rest-api/v1/certificate/CN%3DTest%20CA/1A2B3C/revoke''
           (with_json [(''reason'', PStr ''NOT_A_REASON'')])])"
  by (simp add: revocation_reasons_def handle_call_tool_def dispatch_def and_then_def getitem_def
        get_default_def perform_def send_def revoke_certificate_request_def quote_test
        make_request_def primary_attempt_def test_client_True api_url_def fixed_env_def reply_def
        format_result_def display_def classify_def dict_get_def has_key_def with_json_def Let_def)

text \<open>
  Claim C2, as amended. With a false delta flag and a partition index equal to 0 the
  three CRL requests carry no query parameter. A partition index other than 0 is in the
  query of \<open>get_latest_crl\<close>, and of \<open>get_crl\<close> when the issuer DN is not empty, whatever the
  delta flag. \<open>get_crl\<close> without an issuer DN asks for \<open>ca/crl\<close> with no query at all, and
  \<open>create_crl\<close> never sends a partition index.
\<close>

theorem crl_query_parameters:
  "(\<not> arg_truthy delta \<and> \<not> ne_zero idx \<longrightarrow>
      (\<exists>r. get_latest_crl_request (AStr dn) delta idx = Inr r \<and> query_params r = [])
    \<and> (\<exists>r. get_crl_request (AStr dn) delta idx = Inr r \<and> query_params r = [])
    \<and> (\<exists>r. get_crl_request ANull delta idx = Inr r \<and> query_params r = [])
    \<and> (\<exists>r. create_crl_request (AStr dn) delta = Inr r \<and> query_params r = []))
   \<and> (ne_zero idx \<longrightarrow>
      (\<exists>r. get_latest_crl_request (AStr dn) delta idx = Inr r
            \<and> map_of (query_params r) ''crlPartitionIndex'' = Some (PStr (py_str idx)))
    \<and> (dn \<noteq> [] \<longrightarrow>
          (\<exists>r. get_crl_request (AStr dn) delta idx = Inr r
            \<and> map_of (query_params r) ''crlPartitionIndex'' = Some (PStr (py_str idx)))))
   \<and> (\<not> arg_truthy issuer \<longrightarrow>
        get_crl_request issuer delta idx =
          Inr \<lparr>rq_method = ''GET'', rq_endpoint = ''ca/crl'', rq_kwargs = no_kwargs\<rparr>)
   \<and> (\<exists>r. create_crl_request (AStr dn) delta = Inr r
          \<and> map_of (query_params r) ''crlPartitionIndex'' = None)"
  by (simp add: get_latest_crl_request_def get_crl_request_def create_crl_request_def
        query_params_def with_params_def no_kwargs_def crl_params_default crl_params_partition
        arg_truthy_def)

theorem crl_query_parameters_witness:
  "\<not> arg_truthy (ABool False) \<and> \<not> ne_zero (AInt 0) \<and> ne_zero (AInt 3) \<and> \<not> arg_truthy ANull
   \<and> ''CN=Test CA'' \<noteq> []
   \<and> get_latest_crl_request (AStr ''CN=Test CA'') (ABool False) (AInt 0) =
        Inr \<lparr>rq_method = ''GET'', rq_endpoint = ''ca/CN%3DTest%20CA/getLatestCrl'',
             rq_kwargs = with_params []\<rparr>
   \<and> get_crl_request (AStr ''CN=Test CA'') (ABool True) (AInt 3) =
        Inr \<lparr>rq_method = ''GET'', rq_endpoint = ''ca/CN%3DTest%20CA/getcrl'',
             rq_kwargs = with_params [(''deltaCrl'', PStr ''true''), (''crlPartitionIndex'', PStr ''3'')]\<rparr>
   \<and> get_crl_request ANull (ABool False) (AInt 3) =
        Inr \<lparr>rq_method = ''GET'', rq_endpoint = ''ca/crl'', rq_kwargs = no_kwargs\<rparr>"
proof -
  have h: "\<not> arg_truthy (ABool False) \<and> \<not> ne_zero (AInt 0) \<and> ne_zero (AInt 3) \<and> \<not> arg_truthy ANull
           \<and> ''CN=Test CA'' \<noteq> []"
    by (simp add: arg_truthy_def ne_zero_def)
  have a: "get_latest_crl_request (AStr ''CN=Test CA'') (ABool False) (AInt 0) =
        Inr \<lparr>rq_method = ''GET'', rq_endpoint = ''ca/CN%3DTest%20CA/getLatestCrl'',
             rq_kwargs = with_params []\<rparr>"
    using crl_query_parameters [of "ABool False" "AInt 0" "''CN=Test CA''" ANull] h
    by (auto simp: get_latest_crl_request_def quote_test query_params_def with_params_def)
  have b: "get_crl_request (AStr ''CN=Test CA'') (ABool True) (AInt 3) =
        Inr \<lparr>rq_method = ''GET'', rq_endpoint = ''ca/CN%3DTest%20CA/getcrl'',
             rq_kwargs = with_params [(''deltaCrl'', PStr ''true''), (''crlPartitionIndex'', PStr ''3'')]\<rparr>"
    by (simp add: get_crl_request_def quote_test crl_params_def arg_truthy_def ne_zero_def
                  str_int_def str_nat.simps)
  have c: "get_crl_request ANull (ABool False) (AInt 3) =
        Inr \<lparr>rq_method = ''GET'', rq_endpoint = ''ca/crl'', rq_kwargs = no_kwargs\<rparr>"
    using crl_query_parameters [of "ABool False" "AInt 3" "''CN=Test CA''" ANull] h
    by simp
  show ?thesis using h a b c by simp
qed

text \<open>\<open>get_crl\<close> for the default CA drops a partition index of 3.\<close>

theorem crl_partition_dropped_counterexample:
  "ne_zero (AInt 3)
   \<and> get_crl_request ANull (ABool False) (AInt 3) =
        Inr \<lparr>rq_method = ''GET'', rq_endpoint = ''ca/crl'', rq_kwargs = no_kwargs\<rparr>
   \<and> map_of (query_params \<lparr>rq_method = ''GET'', rq_endpoint = ''ca/crl'', rq_kwargs = no_kwargs\<rparr>)
        ''crlPartitionIndex'' = None
   \<and> snd (handle_call_tool
            (fixed_env (Inr (reply 200 (Some ''application/json'') [123, 125] ''{}'' (Some (PDict []))))
               TimeoutExpired None True)
            (test_client True) ''get_crl'' [''crl_partition_index'' \<mapsto> AInt 3])
       = [Primary ''GET'' ''https://localhost:443/ejbca/ejbca-rest-api/v1/ca/crl'' no_kwargs]"
  by (simp add: ne_zero_def get_crl_request_def arg_truthy_def query_params_def no_kwargs_def
        handle_call_tool_def dispatch_def get_default_def perform_def send_def
        make_request_def primary_attempt_def test_client_True api_url_def fixed_env_def reply_def
        Let_def)

text \<open>
  Claim C6, as amended. \<open>get_certificate_by_serial\<close> with an issuer DN that is not empty
  asks for \<open>certificate/{quoted DN}/{serial}\<close>, where the quoted DN consists of letters,
  digits, \<open>_.-~\<close> and \<open>%\<close> escapes only, so that it holds no slash; without an issuer
  DN, or with an empty one, it asks for \<open>certificate/serialnumber/{serial}\<close>.
\<close>

theorem certificate_by_serial_path:
  assumes "args ''serial_number'' = Some sn"
  shows "(args ''issuer_dn'' = Some (AStr dn) \<and> dn \<noteq> [] \<longrightarrow>
            dispatch env c ''get_certificate_by_serial'' args =
              Some (Inr (make_request env c ''GET''
                           (''certificate/'' @ quote dn @ ''/'' @ py_str sn) no_kwargs))
          \<and> (\<forall>x \<in> set (quote dn). always_safe x \<or> x = CHR ''%'')
          \<and> CHR ''/'' \<notin> set (quote dn))
       \<and> (args ''issuer_dn'' = None \<or> args ''issuer_dn'' = Some (AStr []) \<longrightarrow>
            dispatch env c ''get_certificate_by_serial'' args =
              Some (Inr (make_request env c ''GET''
                           (''certificate/serialnumber/'' @ py_str sn) no_kwargs)))"
  using assms quote_alphabet quote_no_slash
  by (auto simp: dispatch_def and_then_def getitem_def get_default_def perform_def send_def
        get_certificate_by_serial_request_def arg_truthy_def)

theorem certificate_by_serial_path_witness:
  "[''serial_number'' \<mapsto> AStr ''1A2B3C'', ''issuer_dn'' \<mapsto> AStr ''CN=Test CA''] ''serial_number''
     = Some (AStr ''1A2B3C'')
   \<and> [''serial_number'' \<mapsto> AStr ''1A2B3C'', ''issuer_dn'' \<mapsto> AStr ''CN=Test CA''] ''issuer_dn''
     = Some (AStr ''CN=Test CA'')
   \<and> ''CN=Test CA'' \<noteq> []
   \<and> [''serial_number'' \<mapsto> AStr ''1A2B3C''] ''issuer_dn'' = None
   \<and> dispatch (fixed_env (Inl (OtherException [])) TimeoutExpired None True) (test_client True)
        ''get_certificate_by_serial''
        [''serial_number'' \<mapsto> AStr ''1A2B3C'', ''issuer_dn'' \<mapsto> AStr ''CN=Test CA'']
      = Some (Inr (make_request (fixed_env (Inl (OtherException [])) TimeoutExpired None True)
                     (test_client True) ''GET'' ''certificate/CN%3DTest%20CA/1A2B3C'' no_kwargs))
   \<and> CHR ''/'' \<notin> set (quote ''CN=Test CA'')
   \<and> dispatch (fixed_env (Inl (OtherException [])) TimeoutExpired None True) (test_client True)
        ''get_certificate_by_serial'' [''serial_number'' \<mapsto> AStr ''1A2B3C'']
      = Some (Inr (make_request (fixed_env (Inl (OtherException [])) TimeoutExpired None True)
                     (test_client True) ''GET'' ''certificate/serialnumber/1A2B3C'' no_kwargs))"
proof -
  let ?env = "fixed_env (Inl (OtherException [])) TimeoutExpired None True"
  let ?with = "[''serial_number'' \<mapsto> AStr ''1A2B3C'', ''issuer_dn'' \<mapsto> AStr ''CN=Test CA'']"
  let ?without = "[''serial_number'' \<mapsto> AStr ''1A2B3C'']"
  have h1: "?with ''serial_number'' = Some (AStr ''1A2B3C'')" by simp
  have h2: "?with ''issuer_dn'' = Some (AStr ''CN=Test CA'')" by simp
  have h3: "?without ''serial_number'' = Some (AStr ''1A2B3C'')" by simp
  have h4: "?without ''issuer_dn'' = None" by simp
  note a = certificate_by_serial_path [where args = ?with and sn = "AStr ''1A2B3C''"
             and dn = "''CN=Test CA''" and env = ?env and c = "test_client True", OF h1]
  note b = certificate_by_serial_path [where args = ?without and sn = "AStr ''1A2B3C''"
             and dn = "''CN=Test CA''" and env = ?env and c = "test_client True", OF h3]
  show ?thesis
    using a b h1 h2 h4 by (simp add: quote_test)
qed

text \<open>An issuer DN that is supplied but empty fails the test \<open>if issuer_dn:\<close> and takes
  the path without an issuer.\<close>

theorem empty_issuer_dn_counterexample:
  "[''serial_number'' \<mapsto> AStr ''1A2B3C'', ''issuer_dn'' \<mapsto> AStr []] ''issuer_dn'' = Some (AStr [])
   \<and> snd (handle_call_tool
            (fixed_env (Inr (reply 200 (Some ''application/json'') [123, 125] ''{}'' (Some (PDict []))))
               TimeoutExpired None True)
            (test_client True) ''get_certificate_by_serial''
            [''serial_number'' \<mapsto> AStr ''1A2B3C'', ''issuer_dn'' \<mapsto> AStr []])
       = [Primary ''GET''
            ''https://localhost:443/ejbca/ejbca-rest-api/v1/certificate/serialnumber/1A2B3C''
            no_kwargs]
   \<and> ''certificate/serialnumber/1A2B3C'' \<noteq> ''certificate/'' @ quote [] @ ''/'' @ ''1A2B3C''"
  by (simp add: handle_call_tool_def dispatch_def and_then_def getitem_def get_default_def
        perform_def send_def get_certificate_by_serial_request_def arg_truthy_def
        make_request_def primary_attempt_def test_client_True api_url_def fixed_env_def reply_def
        Let_def quote_def)

section \<open>The envelope\<close>

text \<open>
  Claim C5, as amended. An outcome with an \<open>error\<close> key always gives an \<open>ERROR\<close> envelope.
  When the body formats without an exception, the envelope carries \<open>ERROR\<close> for an outcome
  with an \<open>error\<close> key, else \<open>SUCCESS\<close> for a true \<open>success\<close> entry or a status equal to
  200, else \<open>WARNING\<close>. Formatting raises only on a \<open>crl_data\<close> entry that has no length,
  or is longer than 50 and cannot be sliced; the envelope is then the \<open>ERROR\<close> text of the
  \<open>except\<close> branch, whatever the outcome says. No envelope is a \<open>SUCCESS\<close> and carries an
  error message.
\<close>

theorem classification_priority:
  "(has_key result ''error'' \<longrightarrow> status_text (format_result name result) = Some ERROR)
   \<and> (display result = Inr d \<longrightarrow>
        format_result name result =
          Formatted (if has_key result ''error'' then ERROR
                     else if truthy (dict_get result ''success'' PNone)
                             \<or> py_eq_int (dict_get result ''_status_code'' (PStr ''N/A'')) 200
                          then SUCCESS
                     else WARNING)
            name (dict_get result ''_method'' (PStr ''unknown''))
            (dict_get result ''_status_code'' (PStr ''N/A'')) d)
   \<and> (display result = Inl e \<longrightarrow>
        format_result name result = Failed name (str_exn e)
        \<and> (\<exists>v. map_of result ''crl_data'' = Some v
              \<and> (py_len v = Inl e \<or> (\<exists>n. py_len v = Inr n \<and> n > 50 \<and> slice50 v = Inl e))))
   \<and> (status_text (format_result name result) = Some SUCCESS \<longrightarrow>
        \<not> error_message (format_result name result))"
proof (intro conjI impI)
  assume "has_key result ''error''"
  then show "status_text (format_result name result) = Some ERROR"
    by (simp add: format_result_def classify_def split: sum.splits)
next
  assume "display result = Inr d"
  then show "format_result name result =
          Formatted (if has_key result ''error'' then ERROR
                     else if truthy (dict_get result ''success'' PNone)
                             \<or> py_eq_int (dict_get result ''_status_code'' (PStr ''N/A'')) 200
                          then SUCCESS
                     else WARNING)
            name (dict_get result ''_method'' (PStr ''unknown''))
            (dict_get result ''_status_code'' (PStr ''N/A'')) d"
    by (simp add: format_result_def classify_def Let_def)
next
  assume a: "display result = Inl e"
  then show "format_result name result = Failed name (str_exn e)"
    by (simp add: format_result_def)
  from a show "\<exists>v. map_of result ''crl_data'' = Some v
              \<and> (py_len v = Inl e \<or> (\<exists>n. py_len v = Inr n \<and> n > 50 \<and> slice50 v = Inl e))"
    by (simp add: display_raises)
next
  assume s: "status_text (format_result name result) = Some SUCCESS"
  show "\<not> error_message (format_result name result)"
  proof (cases "display result")
    case (Inl e)
    with s show ?thesis by (simp add: format_result_def)
  next
    case (Inr d)
    with s have "classify result = SUCCESS" by (simp add: format_result_def)
    then have "\<not> has_key result ''error''"
      by (auto simp: classify_def Let_def split: if_splits)
    with Inr show ?thesis
      by (simp add: format_result_def display_error_key)
  qed
qed

theorem classification_priority_witness:
  "has_key [(''error'', PStr ''HTTP 404''), (''_status_code'', PInt 404)] ''error''
   \<and> status_text (format_result ''get_ca_list''
        [(''error'', PStr ''HTTP 404''), (''_status_code'', PInt 404)]) = Some ERROR
   \<and> display [(''response'', PStr ''pong''), (''success'', PBool True), (''_method'', PStr ''curl'')]
       = Inr [(''response'', Val (PStr ''pong'')), (''success'', Val (PBool True))]
   \<and> format_result ''get_ca_list''
        [(''response'', PStr ''pong''), (''success'', PBool True), (''_method'', PStr ''curl'')]
       = Formatted SUCCESS ''get_ca_list'' (PStr ''curl'') (PStr ''N/A'')
           [(''response'', Val (PStr ''pong'')), (''success'', Val (PBool True))]
   \<and> \<not> error_message (format_result ''get_ca_list''
        [(''response'', PStr ''pong''), (''success'', PBool True), (''_method'', PStr ''curl'')])
   \<and> display [(''crl_data'', PNone), (''_status_code'', PInt 200)]
       = Inl (TypeError (''object of type '' @ [CHR 0x27] @ ''NoneType'' @ [CHR 0x27] @ '' has no len()''))
   \<and> status_text (format_result ''get_crl'' [(''crl_data'', PNone), (''_status_code'', PInt 200)])
       = Some ERROR"
proof -
  let ?failed = "[(''error'', PStr ''HTTP 404''), (''_status_code'', PInt 404)]"
  let ?ok = "[(''response'', PStr ''pong''), (''success'', PBool True), (''_method'', PStr ''curl'')]"
  let ?odd = "[(''crl_data'', PNone), (''_status_code'', PInt 200)]"
  let ?e = "TypeError (''object of type '' @ [CHR 0x27] @ ''NoneType'' @ [CHR 0x27] @ '' has no len()'')"
  have h1: "has_key ?failed ''error''" by (simp add: has_key_def)
  have h2: "display ?ok = Inr [(''response'', Val (PStr ''pong'')), (''success'', Val (PBool True))]"
    by (simp add: display_def)
  have h3: "display ?odd = Inl ?e"
    by (simp add: display_def)
  note a = classification_priority [of ?failed "''get_ca_list''" "[]" ?e]
  note b = classification_priority [of ?ok "''get_ca_list''"
             "[(''response'', Val (PStr ''pong'')), (''success'', Val (PBool True))]" ?e]
  note c = classification_priority [of ?odd "''get_crl''" "[]" ?e]
  have fa: "status_text (format_result ''get_ca_list'' ?failed) = Some ERROR"
    using a h1 by blast
  have fb: "format_result ''get_ca_list'' ?ok
       = Formatted SUCCESS ''get_ca_list'' (PStr ''curl'') (PStr ''N/A'')
           [(''response'', Val (PStr ''pong'')), (''success'', Val (PBool True))]"
    using b h2 by (simp add: has_key_def dict_get_def)
  have fb2: "\<not> error_message (format_result ''get_ca_list'' ?ok)"
    using b fb by simp
  have fc: "status_text (format_result ''get_crl'' ?odd) = Some ERROR"
    using c h3 by simp
  show ?thesis
    using h1 h2 h3 fa fb fb2 fc by simp
qed

text \<open>A 200 answer whose JSON object has a number under \<open>crl_data\<close> has no error key and
  status 200, and the handler reports \<open>ERROR\<close>: \<open>len\<close> raises while the body is
  formatted.\<close>

theorem unsized_crl_data_counterexample:
  "make_request
      (fixed_env (Inr (reply 200 (Some ''application/json'') [] []
                         (Some (PDict [(''crl_data'', PInt 5)]))))
         TimeoutExpired None True)
      (test_client True) ''GET'' ''ca'' no_kwargs
    = ([(''crl_data'', PInt 5), (''_method'', PStr ''requests''), (''_status_code'', PInt 200)],
       [Primary ''GET'' ''https://localhost:443/ejbca/ejbca-rest-api/v1/ca'' no_kwargs])
   \<and> \<not> has_key [(''crl_data'', PInt 5), (''_method'', PStr ''requests''), (''_status_code'', PInt 200)]
          ''error''
   \<and> py_eq_int (dict_get [(''crl_data'', PInt 5), (''_method'', PStr ''requests''),
                            (''_status_code'', PInt 200)] ''_status_code'' (PStr ''N/A'')) 200
   \<and> status_text (fst (handle_call_tool
        (fixed_env (Inr (reply 200 (Some ''application/json'') [] []
                           (Some (PDict [(''crl_data'', PInt 5)]))))
           TimeoutExpired None True)
        (test_client True) ''get_ca_list'' Map.empty)) = Some ERROR"
  by (simp add: handle_call_tool_def dispatch_def get_ca_list_def
        make_request_def primary_attempt_def test_client_True api_url_def fixed_env_def reply_def
        format_result_def display_def has_key_def dict_get_def Let_def)

text \<open>
  Claim C3, as amended. On the primary channel, a 200 response whose body is not JSON
  and whose content type starts with \<open>application/pkix-crl\<close> is kept as its bytes; the
  outcome's \<open>content_length\<close> and the envelope's \<open>crl_size_bytes\<close> are the number of
  bytes of the body, whether the preview is cut at 50 bytes or not.
\<close>

theorem crl_bytes_on_primary:
  assumes "has_certificates c"
    and "session_request env method (api_url c endpoint) kw = Inr resp"
    and "resp_status_code resp = 200"
    and "resp_json resp = None"
    and "resp_content_type resp = Some ct"
    and "startswith ct ''application/pkix-crl''"
  shows "make_request env c method endpoint kw =
          ([(''crl_data'', PBytes (resp_content resp)),
            (''content_type'', PStr ct),
            (''content_length'', PInt (int (length (resp_content resp)))),
            (''success'', PBool True),
            (''_method'', PStr ''requests''),
            (''_status_code'', PInt 200)],
           [Primary method (api_url c endpoint) kw])
        \<and> format_result name (fst (make_request env c method endpoint kw)) =
            Formatted SUCCESS name (PStr ''requests'') (PInt 200)
              [(''content_type'', Val (PStr ct)),
               (''content_length'', Val (PInt (int (length (resp_content resp))))),
               (''success'', Val (PBool True)),
               (''crl_size_bytes'', Val (PInt (int (length (resp_content resp))))),
               (''crl_data_preview'',
                  if length (resp_content resp) > 50
                  then Text (PBytes (take 50 (resp_content resp))) ''...''
                  else Text (PBytes (resp_content resp)) [])]"
proof -
  have m: "make_request env c method endpoint kw =
          ([(''crl_data'', PBytes (resp_content resp)),
            (''content_type'', PStr ct),
            (''content_length'', PInt (int (length (resp_content resp)))),
            (''success'', PBool True),
            (''_method'', PStr ''requests''),
            (''_status_code'', PInt 200)],
           [Primary method (api_url c endpoint) kw])"
    using assms by (simp add: make_request_def primary_attempt_def Let_def)
  have "format_result name (fst (make_request env c method endpoint kw)) =
            Formatted SUCCESS name (PStr ''requests'') (PInt 200)
              [(''content_type'', Val (PStr ct)),
               (''content_length'', Val (PInt (int (length (resp_content resp))))),
               (''success'', Val (PBool True)),
               (''crl_size_bytes'', Val (PInt (int (length (resp_content resp))))),
               (''crl_data_preview'',
                  if length (resp_content resp) > 50
                  then Text (PBytes (take 50 (resp_content resp))) ''...''
                  else Text (PBytes (resp_content resp)) [])]"
    by (simp add: m format_result_def display_def classify_def has_key_def dict_get_def Let_def)
  with m show ?thesis by blast
qed

theorem crl_bytes_on_primary_witness:
  "has_certificates (test_client True)
   \<and> resp_status_code (reply 200 (Some ''application/pkix-crl'') (replicate 1200 48) [] None) = 200
   \<and> resp_json (reply 200 (Some ''application/pkix-crl'') (replicate 1200 48) [] None) = None
   \<and> startswith ''application/pkix-crl'' ''application/pkix-crl''
   \<and> length (replicate 1200 (48::nat)) > 50
   \<and> format_result ''get_crl''
        (fst (make_request
                (fixed_env (Inr (reply 200 (Some ''application/pkix-crl'') (replicate 1200 48) [] None))
                   TimeoutExpired None True)
                (test_client True) ''GET'' ''ca/crl'' no_kwargs))
      = Formatted SUCCESS ''get_crl'' (PStr ''requests'') (PInt 200)
          [(''content_type'', Val (PStr ''application/pkix-crl'')),
           (''content_length'', Val (PInt 1200)),
           (''success'', Val (PBool True)),
           (''crl_size_bytes'', Val (PInt 1200)),
           (''crl_data_preview'', Text (PBytes (replicate 50 48)) ''...'')]"
proof -
  let ?resp = "reply 200 (Some ''application/pkix-crl'') (replicate 1200 48) [] None"
  let ?up = "fixed_env (Inr ?resp) TimeoutExpired None True"
  have h1: "has_certificates (test_client True)" by (simp add: test_client_True)
  have h2: "session_request ?up ''GET'' (api_url (test_client True) ''ca/crl'') no_kwargs = Inr ?resp"
    by (simp add: fixed_env_def)
  have h3: "resp_status_code ?resp = 200" by (simp add: reply_def)
  have h4: "resp_json ?resp = None" by (simp add: reply_def)
  have h5: "resp_content_type ?resp = Some ''application/pkix-crl''" by (simp add: reply_def)
  have h6: "startswith ''application/pkix-crl'' ''application/pkix-crl''"
    by (simp add: startswith_def)
  have l: "length (replicate 1200 (48::nat)) > 50" by simp
  have c: "resp_content ?resp = replicate 1200 48" by (simp add: reply_def)
  have t: "take 50 (replicate 1200 (48::nat)) = replicate 50 48" by simp
  note p = crl_bytes_on_primary [where name = "''get_crl''", OF h1 h2 h3 h4 h5 h6, THEN conjunct2]
  show ?thesis
    using h1 h3 h4 h6 l p by (simp add: c t del: replicate_eq_replicate)
qed

text \<open>A revocation list fetched over the fallback channel gives an envelope without
  \<open>crl_size_bytes\<close>; so does a response on the primary channel whose body parses as JSON,
  whatever its content type.\<close>

theorem crl_length_counterexample:
  "body_field
     (fst (handle_call_tool
             (fixed_env (Inl (OtherException ''timed out''))
                (Completed 0 ''-----BEGIN X509 CRL-----'' []) None True)
             (test_client True) ''get_crl'' Map.empty))
     ''crl_size_bytes'' = None
   \<and> channel
     (fst (handle_call_tool
             (fixed_env (Inl (OtherException ''timed out''))
                (Completed 0 ''-----BEGIN X509 CRL-----'' []) None True)
             (test_client True) ''get_crl'' Map.empty)) = Some (PStr ''curl'')
   \<and> handle_call_tool
        (fixed_env (Inr (reply 200 (Some ''application/pkix-crl'') [123, 125] ''{}'' (Some (PDict []))))
           TimeoutExpired None True)
        (test_client True) ''get_crl'' Map.empty
      = (Formatted SUCCESS ''get_crl'' (PStr ''requests'') (PInt 200) [],
         [Primary ''GET'' ''https://localhost:443/ejbca/ejbca-rest-api/v1/ca/crl'' no_kwargs])"
  by (simp add: handle_call_tool_def dispatch_def get_default_def perform_def send_def
        get_crl_request_def arg_truthy_def
        make_request_def primary_attempt_def curl_fallback_def no_kwargs_def
        test_client_True api_url_def fixed_env_def reply_def
        format_result_def display_def classify_def has_key_def dict_get_def Let_def)

section \<open>Missing credentials\<close>




end
